theory Spec2Isabelle
  imports Main
begin

section \<open>C strings and the library calls the shell uses\<close>

text \<open>
  A C string is modelled by the list of its characters before the terminating NUL; a
  pointer that may be NULL is an \<open>option\<close>.  Reading through a NULL pointer, indexing a
  vector outside its size and the other undefined steps of the source are results of
  their own (\<open>Fault\<close>), never hidden behind a total HOL function.
\<close>

datatype fault =
    Null_dereference      \<comment> \<open>a NULL pointer handed to strlen, strcmp, strcat or strdup\<close>
  | Vector_out_of_bounds  \<comment> \<open>vector_get at a position that is not below vector_size\<close>
  | Read_before_buffer    \<comment> \<open>command[strlen(command) - 1] on the empty string\<close>

text \<open>
  \<open>strtok(s, " ")\<close> called until it returns NULL: the maximal runs of characters other
  than the space, in order.  No token is empty.
\<close>

fun split_acc :: "string \<Rightarrow> string \<Rightarrow> string list" where
  "split_acc [] cur = (if cur = [] then [] else [cur])"
| "split_acc (c # cs) cur =
     (if c = CHR '' '' then (if cur = [] then split_acc cs [] else cur # split_acc cs [])
      else split_acc cs (cur @ [c]))"

definition strtok_tokens :: "string \<Rightarrow> string list" where
  "strtok_tokens s = split_acc s []"

text \<open>\<open>trim_space\<close> (shell.c 1033-1040) drops one trailing space, newline or carriage return.\<close>

definition trim_space :: "string \<Rightarrow> string" where
  "trim_space str =
     (if length str > 0 \<and>
         (last str = CHR '' '' \<or> last str = CHR ''\<newline>'' \<or> last str = CHR 0x0D)
      then butlast str else str)"

text \<open>
  \<open>atoi\<close> is \<open>(int) strtol(s, NULL, 10)\<close> in the C library the shell runs on.  The text
  read is leading white space, an optional sign, then decimal digits up to the first
  other character; no digit gives 0 (\<open>decimal_value\<close>).  \<open>strtol\<close> stops at the bounds of
  a 64-bit long, and the conversion to int keeps the low 32 bits, with the wrap-around
  written out in \<open>to_int\<close>.
\<close>

definition isspace :: "char \<Rightarrow> bool" where
  "isspace c = (c = CHR '' '' \<or> c = CHR 0x09 \<or> c = CHR ''\<newline>'' \<or> c = CHR 0x0B
                \<or> c = CHR 0x0C \<or> c = CHR 0x0D)"

definition isdigit :: "char \<Rightarrow> bool" where
  "isdigit c = (48 \<le> (of_char c :: nat) \<and> (of_char c :: nat) \<le> 57)"

fun digits_value :: "string \<Rightarrow> int \<Rightarrow> int" where
  "digits_value [] acc = acc"
| "digits_value (c # cs) acc =
     (if isdigit c then digits_value cs (10 * acc + (of_char c - 48)) else acc)"

definition strip_sign :: "string \<Rightarrow> bool \<times> string" where
  "strip_sign s =
     (case s of
        [] \<Rightarrow> (False, [])
      | c # cs \<Rightarrow> if c = CHR ''-'' then (True, cs)
                  else if c = CHR ''+'' then (False, cs) else (False, s))"

definition decimal_value :: "string \<Rightarrow> int" where
  "decimal_value s =
     (let (neg, ds) = strip_sign (dropWhile isspace s);
          v = digits_value ds 0
      in if neg then - v else v)"

definition strtol :: "string \<Rightarrow> int" where
  "strtol s = max (- 9223372036854775808) (min 9223372036854775807 (decimal_value s))"

definition to_int :: "int \<Rightarrow> int" where
  "to_int v = (v + 2147483648) mod 4294967296 - 2147483648"

definition atoi :: "string \<Rightarrow> int" where
  "atoi s = to_int (strtol s)"

section \<open>Shell state, the operating system, and results\<close>

text \<open>What \<open>get_process_info\<close> reads from /proc for one pid.\<close>

record process_info =
  info_pid :: int
  nthreads :: int
  vsize :: int
  state :: char
  start_str :: string
  time_str :: string
  info_command :: string

text \<open>
  Modelled from the spec: format.h (the \<open>print_\<close> functions) is not among the sources;
  the specification makes it a formatting collaborator that prints one fixed message
  per call.  Each such call, and each system call that acts on another process or on
  the file system, is an event; the trace holds the events in order.
\<close>

datatype event =
    Print_invalid_command string
  | Print_no_directory string
  | Print_history_line nat string
  | Print_invalid_index
  | Print_command string
  | Print_no_history_match
  | Print_fork_failed
  | Print_wait_failed
  | Print_no_process_found int
  | Print_killed_process int string
  | Print_stopped_process int string
  | Print_continued_process int string
  | Print_process_info_header
  | Print_process_info process_info
  | Sys_fork string "string option" "string option" "string option"
      \<comment> \<open>the command the child will run and the output, append and input files it sees\<close>
  | Sys_kill int int
  | Sys_setpgid int int
  | Sys_chdir string
  | Append_history_file string string

text \<open>
  The fields of \<open>struct process\<close> that the modelled functions use, with the trace and
  a counter of the questions asked to the operating system so far.
\<close>

record shell_state =
  pid :: int
  previous_commands :: "string list"
  history_file :: "string option"
  background_jobs :: "int list"
  background_jobs_commands :: "string list"
  output_file :: "string option"
  input_file :: "string option"
  append_file :: "string option"
  trace :: "event list"
  clock :: nat

datatype wait_status = Exited int | Not_exited

text \<open>
  The operating system answers each call; the answer may differ from call to call, so
  it depends on the counter as well as on the arguments.
\<close>

record world =
  w_fork :: "nat \<Rightarrow> int"
  w_waitpid :: "nat \<Rightarrow> int \<Rightarrow> wait_status"
  w_kill :: "nat \<Rightarrow> int \<Rightarrow> int \<Rightarrow> int"
  w_chdir :: "nat \<Rightarrow> string \<Rightarrow> int"
  w_getcwd :: "nat \<Rightarrow> string"
  w_proc :: "nat \<Rightarrow> int \<Rightarrow> process_info option"

text \<open>
  A call returns (\<open>Ret\<close>), faults, ends the process through \<open>exit\<close>, finds itself in
  the forked child (which never returns to the caller), or needs more nested
  re-invocations than the fuel allows.
\<close>

datatype 'a outcome =
    Ret 'a
  | Fault fault
  | Exit shell_state
  | In_child shell_state string
  | Out_of_fuel

fun bind :: "'a outcome \<Rightarrow> ('a \<Rightarrow> 'b outcome) \<Rightarrow> 'b outcome" where
  "bind (Ret a) k = k a"
| "bind (Fault e) k = Fault e"
| "bind (Exit s) k = Exit s"
| "bind (In_child s c) k = In_child s c"
| "bind Out_of_fuel k = Out_of_fuel"

definition emit :: "event \<Rightarrow> shell_state \<Rightarrow> shell_state" where
  "emit e st = st\<lparr>trace := trace st @ [e]\<rparr>"

definition tick :: "shell_state \<Rightarrow> shell_state" where
  "tick st = st\<lparr>clock := Suc (clock st)\<rparr>"

text \<open>
  Modelled from the spec: vector.h (\<open>vector_get\<close>, \<open>vector_erase\<close>, \<open>vector_push_back\<close>,
  \<open>vector_size\<close>) is not among the sources.  The specification's history and job table
  are ordered sequences indexed by position, so a vector is the list of its elements
  and \<open>vector_push_back\<close> appends.  \<open>vector_get\<close> outside the size is a fault, and a
  string vector stores a copy of the string pushed, so that pushing NULL dereferences
  it.
\<close>

definition vector_get :: "'a list \<Rightarrow> nat \<Rightarrow> 'a outcome" where
  "vector_get v i = (if i < length v then Ret (v ! i) else Fault Vector_out_of_bounds)"

definition vector_erase :: "'a list \<Rightarrow> nat \<Rightarrow> 'a list" where
  "vector_erase v i = take i v @ drop (Suc i) v"

section \<open>Assembling the commands of a line (execute\_command, step 1)\<close>

record assembly =
  commands :: "string list"
  logical_operator :: "string option"
  current_command :: "string option"

definition join_token :: "string option \<Rightarrow> string \<Rightarrow> string" where
  "join_token cur token = (case cur of None \<Rightarrow> token | Some c \<Rightarrow> c @ '' '' @ token)"

text \<open>
  The three redirection branches (shell.c 358-381) differ only in the field they set:
  the next token is fetched and trimmed (a fault when there is none), stored, and the
  current command is pushed (a fault when it is NULL); the loop ends.
\<close>

definition redirect ::
  "(string \<Rightarrow> shell_state \<Rightarrow> shell_state) \<Rightarrow> string list \<Rightarrow> assembly \<Rightarrow> shell_state
     \<Rightarrow> (assembly \<times> shell_state) outcome" where
  "redirect set_field rest a st =
     (case rest of
        [] \<Rightarrow> Fault Null_dereference
      | t # _ \<Rightarrow>
          (case current_command a of
             None \<Rightarrow> Fault Null_dereference
           | Some c \<Rightarrow> Ret (a\<lparr>commands := commands a @ [c]\<rparr>, set_field (trim_space t) st)))"

text \<open>
  The loop over the tokens (shell.c 320-405).  The branch for \<open>&\<close> appends with
  \<open>strcat\<close> to a buffer it has not grown; the model appends the two characters.  A
  command is pushed when an operator closes it or when the last token has been added
  to it, and not when the line ends on \<open>&\<close>, \<open>&&\<close> or \<open>||\<close>.
\<close>

fun assemble ::
  "string list \<Rightarrow> assembly \<Rightarrow> shell_state \<Rightarrow> (assembly \<times> shell_state) outcome" where
  "assemble [] a st = Ret (a, st)"
| "assemble (token # rest) a st =
     (if token = ''&&'' \<or> token = ''||'' then
        assemble rest
          (a\<lparr>logical_operator := Some token,
             commands := (case current_command a of
                            None \<Rightarrow> commands a
                          | Some c \<Rightarrow> commands a @ [trim_space c]),
             current_command := None\<rparr>) st
      else if last token = CHR '';'' then
        assemble rest
          (a\<lparr>logical_operator := Some '';'',
             commands := commands a @ [trim_space (join_token (current_command a) (butlast token))],
             current_command := None\<rparr>) st
      else if token = ''>'' then
        redirect (\<lambda>f s. s\<lparr>output_file := Some f\<rparr>) rest a st
      else if token = ''>>'' then
        redirect (\<lambda>f s. s\<lparr>append_file := Some f\<rparr>) rest a st
      else if token = ''<'' then
        redirect (\<lambda>f s. s\<lparr>input_file := Some f\<rparr>) rest a st
      else if token = ''&'' then
        (case current_command a of
           None \<Rightarrow> Fault Null_dereference
         | Some c \<Rightarrow> assemble rest (a\<lparr>current_command := Some (c @ '' &'')\<rparr>) st)
      else
        (let c = join_token (current_command a) token in
         if rest = [] then
           Ret (a\<lparr>commands := commands a @ [trim_space c],
                  current_command := Some (trim_space c)\<rparr>, st)
         else assemble rest (a\<lparr>current_command := Some c\<rparr>) st))"

definition empty_assembly :: assembly where
  "empty_assembly = \<lparr>commands = [], logical_operator = None, current_command = None\<rparr>"

definition assemble_line :: "string \<Rightarrow> shell_state \<Rightarrow> (assembly \<times> shell_state) outcome" where
  "assemble_line command st = assemble (strtok_tokens command) empty_assembly st"

section \<open>Signals and the job table\<close>

definition SIGKILL :: int where "SIGKILL = 9"
definition SIGSTOP :: int where "SIGSTOP = 19"
definition SIGCONT :: int where "SIGCONT = 18"

text \<open>
  \<open>kill_process\<close>, \<open>stop_process\<close> and \<open>continue_process\<close> (shell.c 962-1008) send the
  signal and print one of two messages; they return nothing.
\<close>

definition send_signal ::
  "world \<Rightarrow> int \<Rightarrow> (int \<Rightarrow> string \<Rightarrow> event) \<Rightarrow> int \<Rightarrow> shell_state \<Rightarrow> shell_state" where
  "send_signal w sig delivered p st =
     (let r = w_kill w (clock st) p sig;
          st1 = emit (Sys_kill p sig) (tick st)
      in if r = - 1 then emit (Print_no_process_found p) st1
         else emit (delivered p ''command'') st1)"

definition kill_process :: "world \<Rightarrow> int \<Rightarrow> shell_state \<Rightarrow> shell_state" where
  "kill_process w p st = send_signal w SIGKILL Print_killed_process p st"

definition stop_process :: "world \<Rightarrow> int \<Rightarrow> shell_state \<Rightarrow> shell_state" where
  "stop_process w p st = send_signal w SIGSTOP Print_stopped_process p st"

definition continue_process :: "world \<Rightarrow> int \<Rightarrow> shell_state \<Rightarrow> shell_state" where
  "continue_process w p st = send_signal w SIGCONT Print_continued_process p st"

definition add_background_job :: "int \<Rightarrow> shell_state \<Rightarrow> shell_state" where
  "add_background_job p st = st\<lparr>background_jobs := background_jobs st @ [p]\<rparr>"

text \<open>
  The loop of \<open>remove_background_job\<close> (shell.c 923-929): the index moves on after an
  erase as well, and the bound is the size of the vector as it is then.
\<close>

function erase_loop :: "int \<Rightarrow> nat \<Rightarrow> int list \<Rightarrow> int list" where
  "erase_loop p i jobs =
     (if i < length jobs then
        (if jobs ! i = p then erase_loop p (Suc i) (vector_erase jobs i)
         else erase_loop p (Suc i) jobs)
      else jobs)"
  by pat_completeness auto
termination
  by (relation "measure (\<lambda>(p, i, jobs). length jobs - i)") (auto simp: vector_erase_def)

declare erase_loop.simps [simp del]

definition remove_background_job :: "world \<Rightarrow> int \<Rightarrow> shell_state \<Rightarrow> shell_state" where
  "remove_background_job w p st =
     kill_process w p (st\<lparr>background_jobs := erase_loop p 0 (background_jobs st)\<rparr>)"

section \<open>ps\<close>

text \<open>
  \<open>get_process_info\<close> (shell.c 1042-1101) reads /proc/pid/status and /proc/pid/stat.
  What the files hold is the operating system's answer; when they cannot be opened the
  source passes the NULL stream on to getline.
\<close>

definition get_process_info :: "world \<Rightarrow> int \<Rightarrow> shell_state \<Rightarrow> (process_info \<times> shell_state) outcome" where
  "get_process_info w p st =
     (case w_proc w (clock st) p of
        None \<Rightarrow> Fault Null_dereference
      | Some info \<Rightarrow> Ret (info\<lparr>info_pid := p\<rparr>, tick st))"

text \<open>
  The loop of \<open>execute_ps\<close> (shell.c 944-950), \<open>k\<close> rows from position \<open>i\<close> on.  The body
  does not change the job vector, so its size at entry is the number of rounds.
\<close>

fun ps_rows :: "world \<Rightarrow> nat \<Rightarrow> nat \<Rightarrow> shell_state \<Rightarrow> shell_state outcome" where
  "ps_rows w 0 i st = Ret st"
| "ps_rows w (Suc k) i st =
     bind (vector_get (background_jobs st) i) (\<lambda>p.
     bind (get_process_info w p st) (\<lambda>(info, st1).
     bind (vector_get (background_jobs_commands st1) i) (\<lambda>c.
     ps_rows w k (Suc i) (emit (Print_process_info (info\<lparr>info_command := c\<rparr>)) st1))))"

definition execute_ps :: "world \<Rightarrow> shell_state \<Rightarrow> (int \<times> shell_state) outcome" where
  "execute_ps w st =
     bind (ps_rows w (length (background_jobs st)) 0 (emit Print_process_info_header st)) (\<lambda>st1.
     bind (get_process_info w (pid st1) st1) (\<lambda>(info, st2).
     Ret (0, emit (Print_process_info (info\<lparr>info_command := ''./shell''\<rparr>)) st2)))"

section \<open>External commands\<close>

definition clear_redirection :: "shell_state \<Rightarrow> shell_state" where
  "clear_redirection st = st\<lparr>input_file := None, output_file := None, append_file := None\<rparr>"

text \<open>
  \<open>execute_external_command\<close> (shell.c 763-904) as the shell process runs it.  The
  branch \<open>pid == 0\<close> is the child; it ends in exec or exit and is \<open>child_process\<close> below.
\<close>

definition execute_external_command ::
  "world \<Rightarrow> string \<Rightarrow> shell_state \<Rightarrow> (int \<times> shell_state) outcome" where
  "execute_external_command w command st =
     (if command = [] then Fault Read_before_buffer
      else
        let background = (last command = CHR ''&'');
            command1 = (if background then butlast command else command);
            p = w_fork w (clock st);
            st1 = emit (Sys_fork command1 (output_file st) (append_file st) (input_file st))
                    (tick st)
        in if p < 0 then Ret (1, emit Print_fork_failed st1)
           else if p > 0 then
             (if \<not> background then
                (case w_waitpid w (clock st1) p of
                   Not_exited \<Rightarrow> Ret (1, emit Print_wait_failed (tick st1))
                 | Exited code \<Rightarrow>
                     if code \<noteq> 0 then Ret (1, tick st1)
                     else Ret (0, clear_redirection (tick st1)))
              else
                (let st2 = add_background_job p (emit (Sys_setpgid p p) st1);
                     st3 = st2\<lparr>background_jobs_commands :=
                                 background_jobs_commands st2 @ [command1]\<rparr>
                 in Ret (0, clear_redirection st3)))
           else In_child st1 command1)"

section \<open>Built-in commands\<close>

definition starts_with :: "char \<Rightarrow> string \<Rightarrow> bool" where
  "starts_with c s = (case s of [] \<Rightarrow> False | x # _ \<Rightarrow> x = c)"

definition is_builtin_command :: "string \<Rightarrow> bool outcome" where
  "is_builtin_command command =
     (case strtok_tokens command of
        [] \<Rightarrow> Fault Null_dereference
      | tok # _ \<Rightarrow>
          (let token = trim_space tok in
           Ret (token = ''stop'' \<or> token = ''cont'' \<or> token = ''kill'' \<or> token = ''exit''
                \<or> token = ''cd'' \<or> token = ''!history'' \<or> starts_with (CHR ''#'') token
                \<or> starts_with (CHR ''!'') token \<or> token = ''ps'')))"

definition execute_cd :: "world \<Rightarrow> string \<Rightarrow> shell_state \<Rightarrow> (int \<times> shell_state) outcome" where
  "execute_cd w path st =
     (if \<not> starts_with (CHR ''/'') path then
        (let current_directory = w_getcwd w (clock st);
             new_path = current_directory @ ''/'' @ path;
             st1 = tick st;
             r = w_chdir w (clock st1) new_path;
             st2 = emit (Sys_chdir new_path) (tick st1)
         in if r = - 1 then Ret (1, emit (Print_no_directory path) st2) else Ret (0, st2))
      else
        (let st1 = emit (Sys_chdir path) (tick st);
             r = w_chdir w (clock st1) path;
             st2 = emit (Sys_chdir path) (tick st1)
         in if r = - 1 then Ret (1, emit (Print_no_directory path) st2) else Ret (0, st2)))"

definition execute_history :: "shell_state \<Rightarrow> (int \<times> shell_state) outcome" where
  "execute_history st =
     Ret (0, st\<lparr>trace := trace st @
                  map (\<lambda>(i, c). Print_history_line i c) (enumerate 0 (previous_commands st))\<rparr>)"

text \<open>
  \<open>#<n>\<close> and \<open>!<prefix>\<close> call \<open>execute_command\<close> on a history entry.  The call is the
  parameter \<open>exec\<close>; it gets the position of the entry as well as its text, since the
  callee trims the entry where it is stored.
\<close>

definition execute_n ::
  "(nat option \<Rightarrow> string \<Rightarrow> shell_state \<Rightarrow> shell_state outcome) \<Rightarrow> int \<Rightarrow> shell_state
     \<Rightarrow> (int \<times> shell_state) outcome" where
  "execute_n exec n st =
     (if n < 0 \<or> nat n \<ge> length (previous_commands st) then
        Ret (1, emit Print_invalid_index st)
      else
        (let c = previous_commands st ! nat n in
         bind (exec (Some (nat n)) c (emit (Print_command c) st)) (\<lambda>st1. Ret (0, st1))))"

text \<open>The scan of \<open>execute_prefix\<close>, from the newest entry (position \<open>i - 1\<close>) down.\<close>

fun prefix_scan :: "string \<Rightarrow> string list \<Rightarrow> nat \<Rightarrow> nat option" where
  "prefix_scan prefix entries 0 = None"
| "prefix_scan prefix entries (Suc i) =
     (if take (length prefix) (entries ! i) = prefix then Some i
      else prefix_scan prefix entries i)"

definition execute_prefix ::
  "(nat option \<Rightarrow> string \<Rightarrow> shell_state \<Rightarrow> shell_state outcome) \<Rightarrow> string \<Rightarrow> shell_state
     \<Rightarrow> (int \<times> shell_state) outcome" where
  "execute_prefix exec prefix st =
     (case prefix_scan prefix (previous_commands st) (length (previous_commands st)) of
        None \<Rightarrow> Ret (1, emit Print_no_history_match st)
      | Some i \<Rightarrow>
          (let c = previous_commands st ! i in
           bind (exec (Some i) c (emit (Print_command c) st)) (\<lambda>st1. Ret (0, st1))))"

definition exit_shell :: "world \<Rightarrow> shell_state \<Rightarrow> 'a outcome" where
  "exit_shell w st = Exit (foldl (\<lambda>s p. kill_process w p s) st (background_jobs st))"

text \<open>
  The three signal built-ins (shell.c 573-608): a missing argument is an invalid
  command with status 1; otherwise the signal function is called and 0 is returned.
\<close>

definition signal_builtin ::
  "(int \<Rightarrow> shell_state \<Rightarrow> shell_state) \<Rightarrow> string \<Rightarrow> string list \<Rightarrow> shell_state
     \<Rightarrow> (int \<times> shell_state) outcome" where
  "signal_builtin send command args st =
     (case args of
        [] \<Rightarrow> Ret (1, emit (Print_invalid_command command) st)
      | a # _ \<Rightarrow>
          (let p = atoi a in Ret (0, send p st)))"

definition execute_builtin_command ::
  "world \<Rightarrow> (nat option \<Rightarrow> string \<Rightarrow> shell_state \<Rightarrow> shell_state outcome) \<Rightarrow> string
     \<Rightarrow> shell_state \<Rightarrow> (int \<times> shell_state) outcome" where
  "execute_builtin_command w exec command st =
     (case strtok_tokens command of
        [] \<Rightarrow> Fault Null_dereference
      | token # args \<Rightarrow>
          if token = ''cd'' then
            (case args of
               [] \<Rightarrow> Ret (1, emit (Print_invalid_command
                                     (takeWhile (\<lambda>c. c = CHR '' '') command @ token)) st)
             | a # _ \<Rightarrow> execute_cd w a st)
          else if token = ''!history'' then execute_history st
          else if starts_with (CHR ''#'') token then
            (let n = atoi (tl token) in execute_n exec n st)
          else if starts_with (CHR ''!'') token then execute_prefix exec (tl command) st
          else if token = ''exit'' then exit_shell w st
          else if token = ''kill'' then signal_builtin (kill_process w) command args st
          else if token = ''stop'' then signal_builtin (stop_process w) command args st
          else if token = ''cont'' then signal_builtin (continue_process w) command args st
          else if token = ''ps'' then execute_ps w st
          else Ret (1, emit (Print_invalid_command command) st))"

section \<open>execute\_command\<close>

text \<open>The test and call that the source writes out at each of its seven call sites.\<close>

definition dispatch ::
  "world \<Rightarrow> (nat option \<Rightarrow> string \<Rightarrow> shell_state \<Rightarrow> shell_state outcome) \<Rightarrow> string
     \<Rightarrow> shell_state \<Rightarrow> (int \<times> shell_state) outcome" where
  "dispatch w exec command st =
     bind (is_builtin_command command) (\<lambda>builtin.
       if builtin then execute_builtin_command w exec command st
       else execute_external_command w command st)"

text \<open>
  Saving the line (shell.c 484-495 and 516-527).  \<open>trim_space(command)\<close> works on the
  caller's buffer: for a re-invoked history entry that is the entry itself, as it is
  stored at that moment.  The line written to the history file is the trimmed line and
  a newline (the source builds it with \<open>strcat\<close> in a buffer fresh from \<open>malloc\<close>).
\<close>

definition save_history :: "nat option \<Rightarrow> string \<Rightarrow> shell_state \<Rightarrow> shell_state" where
  "save_history origin command st =
     (let entries = previous_commands st;
          stored = (case origin of
                      None \<Rightarrow> command
                    | Some n \<Rightarrow> if n < length entries then entries ! n else command);
          line = trim_space stored;
          entries1 = (case origin of None \<Rightarrow> entries | Some n \<Rightarrow> entries[n := line]);
          st1 = st\<lparr>previous_commands := entries1 @ [line]\<rparr>
      in case history_file st1 of
           None \<Rightarrow> st1
         | Some file \<Rightarrow> emit (Append_history_file file (line @ ''\<newline>'')) st1)"

definition run_first ::
  "world \<Rightarrow> (nat option \<Rightarrow> string \<Rightarrow> shell_state \<Rightarrow> shell_state outcome) \<Rightarrow> assembly
     \<Rightarrow> shell_state \<Rightarrow> (int \<times> shell_state) outcome" where
  "run_first w exec a st = bind (vector_get (commands a) 0) (\<lambda>c. dispatch w exec c st)"

definition run_second ::
  "world \<Rightarrow> (nat option \<Rightarrow> string \<Rightarrow> shell_state \<Rightarrow> shell_state outcome) \<Rightarrow> assembly
     \<Rightarrow> shell_state \<Rightarrow> shell_state outcome" where
  "run_second w exec a st =
     bind (vector_get (commands a) 1) (\<lambda>c.
     bind (dispatch w exec c st) (\<lambda>(exit_status, st1). Ret st1))"

definition run_command ::
  "world \<Rightarrow> (nat option \<Rightarrow> string \<Rightarrow> shell_state \<Rightarrow> shell_state outcome) \<Rightarrow> nat option
     \<Rightarrow> string \<Rightarrow> shell_state \<Rightarrow> shell_state outcome" where
  "run_command w exec origin command st =
     bind (assemble_line command st) (\<lambda>(a, st1).
       case logical_operator a of
         Some op \<Rightarrow>
           bind
             (if op = ''&&'' then
                bind (run_first w exec a st1) (\<lambda>(exit_status, st2).
                  if exit_status = 0 then run_second w exec a st2 else Ret st2)
              else if op = ''||'' then
                bind (run_first w exec a st1) (\<lambda>(exit_status, st2).
                  if exit_status \<noteq> 0 then run_second w exec a st2 else Ret st2)
              else if op = '';'' then
                bind (run_first w exec a st1) (\<lambda>(exit_status, st2).
                  run_second w exec a st2)
              else Ret st1)
             (\<lambda>st3. Ret (save_history origin command st3))
       | None \<Rightarrow>
           bind (vector_get (commands a) 0) (\<lambda>c.
           bind (dispatch w exec c st1) (\<lambda>(exit_status, st2).
             if c \<noteq> ''!history'' \<and> \<not> starts_with (CHR ''#'') c \<and> \<not> starts_with (CHR ''!'') c
             then Ret (save_history origin command st2)
             else Ret st2)))"

text \<open>
  The paths stored in the redirection fields point into the copy of the line that
  assembly cuts into tokens.  After a line with a logical operator the source frees the
  copy (shell.c 499); a field that such a line set and no command cleared then points
  to freed memory, where \<open>run_command\<close> keeps the path.  Lines without an operator
  never free the copy.
\<close>

text \<open>
  \<open>execute_command\<close> re-enters itself through \<open>#<n>\<close> and \<open>!<prefix>\<close>, and a stored
  line such as \<open>#0; ls\<close> at position 0 re-enters without end.  The fuel bounds the
  depth of nested calls.
\<close>

fun execute_command ::
  "world \<Rightarrow> nat \<Rightarrow> nat option \<Rightarrow> string \<Rightarrow> shell_state \<Rightarrow> shell_state outcome" where
  "execute_command w 0 origin command st = Out_of_fuel"
| "execute_command w (Suc fuel) origin command st =
     run_command w (execute_command w fuel) origin command st"

section \<open>The child process and the files it opens\<close>

text \<open>
  The part of POSIX that the child of \<open>execute_external_command\<close> relies on: a file
  system maps a path to the bytes of the file; \<open>open\<close> gives an open file at offset 0,
  creates the file when \<open>O_CREAT\<close> is given and empties it only when \<open>O_TRUNC\<close> is;
  \<open>write\<close> puts the bytes at the offset, or at the end of the file under \<open>O_APPEND\<close>.
\<close>

datatype oflag = O_RDONLY | O_RDWR | O_CREAT | O_APPEND | O_TRUNC

record open_file =
  of_path :: string
  of_offset :: nat
  of_append :: bool

type_synonym filesystem = "string \<Rightarrow> string option"

definition sys_open :: "filesystem \<Rightarrow> string \<Rightarrow> oflag list \<Rightarrow> (filesystem \<times> open_file) option" where
  "sys_open fs path flags =
     (let fd = \<lparr>of_path = path, of_offset = 0, of_append = (O_APPEND \<in> set flags)\<rparr> in
      case fs path of
        None \<Rightarrow> if O_CREAT \<in> set flags \<and> path \<noteq> [] then Some (fs(path \<mapsto> []), fd) else None
      | Some content \<Rightarrow> Some (if O_TRUNC \<in> set flags then fs(path \<mapsto> []) else fs, fd))"

definition sys_write :: "filesystem \<Rightarrow> open_file \<Rightarrow> string \<Rightarrow> filesystem \<times> open_file" where
  "sys_write fs fd data =
     (case fs (of_path fd) of
        None \<Rightarrow> (fs, fd)
      | Some content \<Rightarrow>
          (let off = (if of_append fd then length content else of_offset fd);
               padded = content @ replicate (off - length content) (CHR 0x00);
               content1 = take off padded @ data @ drop (off + length data) padded
           in (fs(of_path fd \<mapsto> content1), fd\<lparr>of_offset := off + length data\<rparr>)))"

record child =
  c_fs :: filesystem
  c_stdout :: "open_file option"
  c_stdin :: "open_file option"

datatype child_end = Child_exit int | Child_exec "string list"

text \<open>
  The branch \<open>pid == 0\<close> (shell.c 812-888) up to \<open>execvp\<close>: the redirections in the
  order output, append, input, then the argument vector.
\<close>

definition redirect_output :: "string option \<Rightarrow> oflag list \<Rightarrow> child \<Rightarrow> child option" where
  "redirect_output file flags c =
     (case file of
        None \<Rightarrow> Some c
      | Some path \<Rightarrow>
          (case sys_open (c_fs c) path flags of
             None \<Rightarrow> None
           | Some (fs1, fd) \<Rightarrow> Some (c\<lparr>c_fs := fs1, c_stdout := Some fd\<rparr>)))"

definition redirect_input :: "string option \<Rightarrow> child \<Rightarrow> child option" where
  "redirect_input file c =
     (case file of
        None \<Rightarrow> Some c
      | Some path \<Rightarrow>
          (case sys_open (c_fs c) path [O_RDONLY] of
             None \<Rightarrow> None
           | Some (fs1, fd) \<Rightarrow> Some (c\<lparr>c_fs := fs1, c_stdin := Some fd\<rparr>)))"

definition child_process :: "shell_state \<Rightarrow> string \<Rightarrow> child \<Rightarrow> child_end \<times> child" where
  "child_process st command c =
     (case redirect_output (output_file st) [O_RDWR, O_CREAT] c of
        None \<Rightarrow> (Child_exit 1, c)
      | Some c1 \<Rightarrow>
          (case redirect_output (append_file st) [O_RDWR, O_APPEND, O_CREAT] c1 of
             None \<Rightarrow> (Child_exit 1, c1)
           | Some c2 \<Rightarrow>
               (case redirect_input (input_file st) c2 of
                  None \<Rightarrow> (Child_exit 1, c2)
                | Some c3 \<Rightarrow>
                    (case strtok_tokens command of
                       [] \<Rightarrow> (Child_exit 1, c3)
                     | args \<Rightarrow> (Child_exec args, c3)))))"

text \<open>The program that was exec'ed writes its output to descriptor 1.\<close>

definition program_writes :: "child \<Rightarrow> string \<Rightarrow> child" where
  "program_writes c data =
     (case c_stdout c of
        None \<Rightarrow> c
      | Some fd \<Rightarrow>
          (let (fs1, fd1) = sys_write (c_fs c) fd data
           in c\<lparr>c_fs := fs1, c_stdout := Some fd1\<rparr>))"

section \<open>The job table as two vectors\<close>

text \<open>
  The pids and the command texts of the jobs are kept in two vectors; \<open>ps\<close> reads the
  command of the job at position \<open>i\<close> at the same position of the second.
\<close>

definition jobs_have_commands :: "shell_state \<Rightarrow> bool" where
  "jobs_have_commands st =
     (length (background_jobs st) \<le> length (background_jobs_commands st))"

section \<open>The operator and redirection tokens, as the specification names them\<close>

text \<open>
  The tag a token stands for as a logical operator: \<open>&&\<close> and \<open>||\<close> themselves, and
  \<open>;\<close> for a token that ends in a semicolon.
\<close>

definition operator_tag :: "string \<Rightarrow> string option" where
  "operator_tag token =
     (if token = ''&&'' \<or> token = ''||'' then Some token
      else if last token = CHR '';'' then Some '';'' else None)"

definition operator_tags :: "string list \<Rightarrow> string list" where
  "operator_tags tokens = List.map_filter operator_tag tokens"

definition is_redirection :: "string \<Rightarrow> bool" where
  "is_redirection token = (token = ''>'' \<or> token = ''>>'' \<or> token = ''<'')"

text \<open>The tokens before the first redirection operator: the loop ends at that operator.\<close>

definition scanned :: "string list \<Rightarrow> string list" where
  "scanned tokens = takeWhile (\<lambda>t. \<not> is_redirection t) tokens"

definition latest_tag :: "string option \<Rightarrow> string list \<Rightarrow> string option" where
  "latest_tag start tokens =
     (if operator_tags tokens = [] then start else Some (last (operator_tags tokens)))"

text \<open>
  Text after \<open>#\<close> that does not parse as a number: after the white space and the sign
  that \<open>atoi\<close> skips, there is no digit.
\<close>

definition not_a_number :: "string \<Rightarrow> bool" where
  "not_a_number text =
     (case snd (strip_sign (dropWhile isspace text)) of [] \<Rightarrow> True | c # _ \<Rightarrow> \<not> isdigit c)"

text \<open>
  When the second command of \<open>cmd1 OP cmd2\<close> runs, in the specification's words: after
  \<open>&&\<close> when the first returned 0, after \<open>||\<close> when it returned nonzero, after \<open>;\<close> always.
\<close>

definition second_command_runs :: "string \<Rightarrow> int \<Rightarrow> bool" where
  "second_command_runs op status =
     ((op = ''&&'' \<and> status = 0) \<or> (op = ''||'' \<and> status \<noteq> 0) \<or> op = '';'')"

section \<open>Concrete states and worlds used in the worked examples\<close>

definition initial_state :: shell_state where
  "initial_state =
     \<lparr>pid = 100, previous_commands = [], history_file = None, background_jobs = [],
      background_jobs_commands = [], output_file = None, input_file = None,
      append_file = None, trace = [], clock = 0\<rparr>"

definition no_exec :: "nat option \<Rightarrow> string \<Rightarrow> shell_state \<Rightarrow> shell_state outcome" where
  "no_exec origin command st = Out_of_fuel"

text \<open>A world in which every call fails: no process can be created, found or waited for.\<close>

definition dead_world :: world where
  "dead_world =
     \<lparr>w_fork = (\<lambda>t. - 1), w_waitpid = (\<lambda>t p. Not_exited), w_kill = (\<lambda>t p sig. - 1),
      w_chdir = (\<lambda>t path. - 1), w_getcwd = (\<lambda>t. ''/''), w_proc = (\<lambda>t p. None)\<rparr>"

definition one_job_state :: shell_state where
  "one_job_state =
     initial_state\<lparr>background_jobs := [5], background_jobs_commands := [''sleep 5 '']\<rparr>"

text \<open>A world in which every child is created and exits with status 1.\<close>

definition failing_child_world :: world where
  "failing_child_world =
     \<lparr>w_fork = (\<lambda>t. 4242), w_waitpid = (\<lambda>t p. Exited 1), w_kill = (\<lambda>t p sig. 0),
      w_chdir = (\<lambda>t path. 0), w_getcwd = (\<lambda>t. ''/''), w_proc = (\<lambda>t p. None)\<rparr>"

text \<open>The world as the forked child sees it: \<open>fork\<close> has returned 0.\<close>

definition child_world :: world where
  "child_world =
     \<lparr>w_fork = (\<lambda>t. 0), w_waitpid = (\<lambda>t p. Exited 0), w_kill = (\<lambda>t p sig. 0),
      w_chdir = (\<lambda>t path. 0), w_getcwd = (\<lambda>t. ''/''), w_proc = (\<lambda>t p. None)\<rparr>"

definition old_files :: filesystem where
  "old_files = (\<lambda>path. if path = ''out.txt'' then Some ''hello world\<newline>'' else None)"

definition terminal_child :: "filesystem \<Rightarrow> child" where
  "terminal_child fs = \<lparr>c_fs = fs, c_stdout = None, c_stdin = None\<rparr>"

definition redirected_state :: shell_state where
  "redirected_state =
     initial_state\<lparr>output_file := Some ''out.txt'',
       trace := [Sys_fork ''echo hi'' (Some ''out.txt'') None None], clock := 1\<rparr>"

definition stored_state :: shell_state where
  "stored_state =
     initial_state\<lparr>previous_commands := [''echo hi >''],
       trace := [Sys_fork ''echo hi >'' None None None], clock := 2\<rparr>"

definition leaked_state :: shell_state where
  "leaked_state =
     initial_state\<lparr>previous_commands := [''false > out.txt''], output_file := Some ''out.txt'',
       trace := [Sys_fork ''false'' (Some ''out.txt'') None None], clock := 2\<rparr>"

text \<open>A world in which every child is created and exits with status 0.\<close>

definition succeeding_world :: world where
  "succeeding_world =
     \<lparr>w_fork = (\<lambda>t. 4242), w_waitpid = (\<lambda>t p. Exited 0), w_kill = (\<lambda>t p sig. 0),
      w_chdir = (\<lambda>t path. 0), w_getcwd = (\<lambda>t. ''/''), w_proc = (\<lambda>t p. None)\<rparr>"

definition one_entry_state :: shell_state where
  "one_entry_state = initial_state\<lparr>previous_commands := [''cd'']\<rparr>"

text \<open>A world in which /proc can be read for every pid.\<close>

definition proc_world :: world where
  "proc_world =
     \<lparr>w_fork = (\<lambda>t. 4242), w_waitpid = (\<lambda>t p. Exited 0), w_kill = (\<lambda>t p sig. 0),
      w_chdir = (\<lambda>t path. 0), w_getcwd = (\<lambda>t. ''/''),
      w_proc = (\<lambda>t p. Some \<lparr>info_pid = p, nthreads = 1, vsize = 2048, state = CHR ''S'',
                               start_str = ''09:00'', time_str = ''0:00'',
                               info_command = []\<rparr>)\<rparr>"

definition two_jobs_state :: shell_state where
  "two_jobs_state =
     initial_state\<lparr>background_jobs := [5, 6],
       background_jobs_commands := [''sleep 50 '', ''sleep 60 '']\<rparr>"

section \<open>Tokens\<close>

lemma split_acc_nonempty: "[] \<notin> set (split_acc s cur)"
  by (induction s cur rule: split_acc.induct) auto

lemma strtok_tokens_nonempty: "[] \<notin> set (strtok_tokens s)"
  by (simp add: strtok_tokens_def split_acc_nonempty)

section \<open>The signal built-ins\<close>

lemma send_signal_failed:
  "w_kill w (clock st) p sig = - 1 \<Longrightarrow>
   send_signal w sig delivered p st =
     emit (Print_no_process_found p) (emit (Sys_kill p sig) (tick st))"
  by (simp add: send_signal_def Let_def)

lemma tokens_kill_999: "strtok_tokens ''kill 999'' = [''kill'', ''999'']"
  by (simp add: strtok_tokens_def)

lemma atoi_999: "atoi ''999'' = 999"
  by (simp add: atoi_def strtol_def to_int_def decimal_value_def strip_sign_def isspace_def
      isdigit_def)

text \<open>
  C6, as the claim states it, fails: \<open>kill 999\<close> when no process 999 exists (the
  signal call returns -1) reports that no process was found, and returns status 0.
\<close>

theorem kill_missing_process_counterexample:
  "w_kill dead_world (clock initial_state) 999 SIGKILL = - 1 \<and>
   execute_builtin_command dead_world no_exec ''kill 999'' initial_state =
     Ret (0, initial_state\<lparr>trace := [Sys_kill 999 9, Print_no_process_found 999], clock := 1\<rparr>)"
  by (simp add: execute_builtin_command_def signal_builtin_def kill_process_def send_signal_def
      tokens_kill_999 atoi_999 dead_world_def initial_state_def emit_def tick_def SIGKILL_def
      starts_with_def Let_def)

text \<open>
  C6, amended: for \<open>kill <pid>\<close>, \<open>stop <pid>\<close> and \<open>cont <pid>\<close>, when the signal cannot be
  delivered because no such process exists, the built-in sends the signal, reports
  that no process was found, and returns status 0.
\<close>

theorem signal_builtin_missing_process:
  assumes tokens: "strtok_tokens command = name # arg # rest"
    and name: "(name, sig) \<in> {(''kill'', SIGKILL), (''stop'', SIGSTOP), (''cont'', SIGCONT)}"
    and arg: "atoi arg = p"
    and dead: "w_kill w (clock st) p sig = - 1"
  shows "execute_builtin_command w exec command st =
           Ret (0, emit (Print_no_process_found p) (emit (Sys_kill p sig) (tick st)))"
proof -
  from name consider "name = ''kill''" "sig = SIGKILL" | "name = ''stop''" "sig = SIGSTOP"
    | "name = ''cont''" "sig = SIGCONT" by auto
  then show ?thesis
  proof cases
    case 1
    with tokens arg dead show ?thesis
      by (simp add: execute_builtin_command_def signal_builtin_def kill_process_def
          send_signal_failed starts_with_def Let_def)
  next
    case 2
    with tokens arg dead show ?thesis
      by (simp add: execute_builtin_command_def signal_builtin_def stop_process_def
          send_signal_failed starts_with_def Let_def)
  next
    case 3
    with tokens arg dead show ?thesis
      by (simp add: execute_builtin_command_def signal_builtin_def continue_process_def
          send_signal_failed starts_with_def Let_def)
  qed
qed

theorem signal_builtin_missing_process_witness:
  "strtok_tokens ''kill 999'' = [''kill'', ''999''] \<and> atoi ''999'' = 999 \<and>
   w_kill dead_world (clock initial_state) 999 SIGKILL = - 1 \<and>
   execute_builtin_command dead_world no_exec ''kill 999'' initial_state =
     Ret (0, emit (Print_no_process_found 999) (emit (Sys_kill 999 SIGKILL) (tick initial_state)))"
  using signal_builtin_missing_process [of "''kill 999''" "''kill''" "''999''" "[]" SIGKILL 999
      dead_world initial_state no_exec]
  by (simp add: tokens_kill_999 atoi_999 dead_world_def)

section \<open>Removing a job\<close>

lemma erase_loop_absent: "p \<notin> set (drop i jobs) \<Longrightarrow> erase_loop p i jobs = jobs"
proof (induction p i jobs rule: erase_loop.induct)
  case (1 p i jobs)
  show ?case
  proof (cases "i < length jobs")
    case True
    then have split: "drop i jobs = jobs ! i # drop (Suc i) jobs"
      by (simp add: Cons_nth_drop_Suc)
    with "1.prems" have ne: "jobs ! i \<noteq> p" and rest: "p \<notin> set (drop (Suc i) jobs)"
      by auto
    with "1.IH"(2) True have "erase_loop p (Suc i) jobs = jobs" by simp
    with True ne show ?thesis by (simp add: erase_loop.simps [of p i jobs])
  next
    case False
    then show ?thesis by (simp add: erase_loop.simps [of p i jobs])
  qed
qed

lemma erase_loop_distinct:
  "distinct jobs \<Longrightarrow> erase_loop p i jobs = take i jobs @ removeAll p (drop i jobs)"
proof (induction p i jobs rule: erase_loop.induct)
  case (1 p i jobs)
  show ?case
  proof (cases "i < length jobs")
    case False
    then show ?thesis by (simp add: erase_loop.simps [of p i jobs])
  next
    case True
    then have split: "drop i jobs = jobs ! i # drop (Suc i) jobs"
      by (simp add: Cons_nth_drop_Suc)
    show ?thesis
    proof (cases "jobs ! i = p")
      case False
      with "1.IH"(2) True "1.prems"
      have "erase_loop p (Suc i) jobs = take (Suc i) jobs @ removeAll p (drop (Suc i) jobs)"
        by simp
      with True False split show ?thesis
        by (simp add: erase_loop.simps [of p i jobs] take_Suc_conv_app_nth)
    next
      case eq: True
      from "1.prems" have d: "distinct (take i jobs @ drop i jobs)" by simp
      with split eq have notin: "p \<notin> set (take i jobs)" "p \<notin> set (drop (Suc i) jobs)"
        by auto
      then have "p \<notin> set (vector_erase jobs i)"
        by (simp add: vector_erase_def)
      then have "p \<notin> set (drop (Suc i) (vector_erase jobs i))"
        by (blast dest: in_set_dropD)
      then have "erase_loop p (Suc i) (vector_erase jobs i) = vector_erase jobs i"
        by (rule erase_loop_absent)
      with True eq split notin show ?thesis
        by (simp add: erase_loop.simps [of p i jobs] vector_erase_def)
    qed
  qed
qed

text \<open>
  C7, as the claim states it, fails: removing pid 5 when the process is already gone
  (the signal call returns -1) prints the no-process-found message; the failure is
  not silent.
\<close>

theorem remove_dead_job_counterexample:
  "w_kill dead_world (clock one_job_state) 5 SIGKILL = - 1 \<and>
   trace (remove_background_job dead_world 5 one_job_state) =
     [Sys_kill 5 9, Print_no_process_found 5]"
  by (simp add: remove_background_job_def kill_process_def send_signal_def emit_def tick_def
      one_job_state_def initial_state_def dead_world_def SIGKILL_def erase_loop.simps)

text \<open>
  C7, amended: removing a pid from a job table of distinct pids takes that pid out of
  the tracked pids, the others keeping their order, and sends SIGKILL to it; when the
  signal fails because the process is gone the failure is reported with the
  no-process-found message, otherwise the killed message is printed; nothing is
  printed or signalled beyond that.
\<close>

theorem remove_background_job_effect:
  assumes "distinct (background_jobs st)"
  shows "background_jobs (remove_background_job w p st) = removeAll p (background_jobs st) \<and>
         trace (remove_background_job w p st) =
           trace st @
             [Sys_kill p SIGKILL,
              if w_kill w (clock st) p SIGKILL = - 1 then Print_no_process_found p
              else Print_killed_process p ''command'']"
  using assms
  by (simp add: remove_background_job_def kill_process_def send_signal_def erase_loop_distinct
      emit_def tick_def Let_def)

theorem remove_background_job_effect_witness:
  "distinct (background_jobs two_jobs_state) \<and>
   background_jobs (remove_background_job dead_world 5 two_jobs_state) = [6] \<and>
   trace (remove_background_job dead_world 5 two_jobs_state) =
     [Sys_kill 5 9, Print_no_process_found 5]"
  using remove_background_job_effect [of two_jobs_state dead_world 5]
  by (simp add: two_jobs_state_def initial_state_def dead_world_def SIGKILL_def)

text \<open>
  The statement above is about the pid vector and the trace only.  The loop erases
  from the pid vector alone (shell.c 927): the command text of the removed job stays
  in the second vector, at the position that the next job now has in the first.
\<close>

lemma removed_job_leaves_its_command_text:
  "background_jobs (remove_background_job dead_world 5 two_jobs_state) = [6] \<and>
   background_jobs_commands (remove_background_job dead_world 5 two_jobs_state) =
     [''sleep 50 '', ''sleep 60 '']"
  by (simp add: remove_background_job_def kill_process_def send_signal_def emit_def tick_def
      two_jobs_state_def initial_state_def dead_world_def SIGKILL_def erase_loop.simps
      vector_erase_def)

section \<open>Whole lines at concrete inputs\<close>

lemmas line_simps =
  run_command_def assemble_line_def strtok_tokens_def empty_assembly_def join_token_def
  trim_space_def redirect_def vector_get_def dispatch_def is_builtin_command_def
  starts_with_def save_history_def run_first_def run_second_def

text \<open>
  C3: the line \<open>echo hi >\<close> with nothing after the operator (the last line of a script
  file without a final newline) ends in a read through the NULL pointer that \<open>strtok\<close>
  returned: the process faults, and no error is reported to any caller.  The same line
  is reached from the prompt: typed with its newline it runs \<open>echo\<close> with the operator
  as an argument and is stored trimmed, and \<open>#0\<close> then runs the stored line.
\<close>

theorem trailing_redirection_faults:
  "execute_command dead_world (Suc 0) None ''echo hi >'' initial_state = Fault Null_dereference \<and>
   execute_command succeeding_world (Suc 0) None ''echo hi >\<newline>'' initial_state
     = Ret stored_state \<and>
   execute_command succeeding_world (Suc (Suc 0)) None ''#0\<newline>'' stored_state
     = Fault Null_dereference"
  by (simp add: line_simps execute_external_command_def execute_builtin_command_def
      execute_n_def atoi_def strtol_def to_int_def decimal_value_def strip_sign_def
      isspace_def isdigit_def succeeding_world_def
      stored_state_def initial_state_def emit_def tick_def Let_def clear_redirection_def)

text \<open>
  C5: a command that exits with a nonzero status leaves the output file set
  (\<open>leaked_state\<close>), and the next command, which has no redirection of its own, is
  forked with that file still in place; a failed \<open>fork\<close> leaves it set as well.
\<close>

theorem redirection_survives_failed_command:
  "execute_command failing_child_world (Suc 0) None ''false > out.txt\<newline>'' initial_state
     = Ret leaked_state \<and>
   output_file leaked_state = Some ''out.txt'' \<and>
   execute_command failing_child_world (Suc 0) None ''echo hi\<newline>'' leaked_state
     = Ret (leaked_state\<lparr>previous_commands := [''false > out.txt'', ''echo hi''],
              trace := [Sys_fork ''false'' (Some ''out.txt'') None None,
                        Sys_fork ''echo hi'' (Some ''out.txt'') None None],
              clock := 4\<rparr>) \<and>
   execute_external_command dead_world ''ls'' (initial_state\<lparr>output_file := Some ''out.txt''\<rparr>)
     = Ret (1, initial_state\<lparr>output_file := Some ''out.txt'',
                 trace := [Sys_fork ''ls'' (Some ''out.txt'') None None, Print_fork_failed],
                 clock := 1\<rparr>)"
  by (simp add: line_simps execute_external_command_def failing_child_world_def dead_world_def
      initial_state_def leaked_state_def emit_def tick_def Let_def)

lemma external_failure_keeps_redirection:
  assumes "execute_external_command w command st = Ret (status, st1)" and "status \<noteq> 0"
  shows "output_file st1 = output_file st \<and> append_file st1 = append_file st
         \<and> input_file st1 = input_file st"
  using assms
  by (auto simp: execute_external_command_def Let_def emit_def tick_def clear_redirection_def
      add_background_job_def split: if_splits wait_status.splits)

lemma external_success_clears_redirection:
  assumes "execute_external_command w command st = Ret (0, st1)"
  shows "output_file st1 = None \<and> append_file st1 = None \<and> input_file st1 = None"
  using assms
  by (auto simp: execute_external_command_def Let_def emit_def tick_def clear_redirection_def
      add_background_job_def split: if_splits wait_status.splits)

text \<open>
  C4: \<open>echo hi > out.txt\<close> when out.txt holds \<open>hello world\<close>.  The child gets the command
  \<open>echo hi\<close> with the output file set, opens the file without \<open>O_TRUNC\<close> and execs echo;
  after echo has written its three bytes the file holds them followed by the rest of
  the old contents.
\<close>

theorem output_redirection_keeps_old_bytes:
  "execute_command child_world (Suc 0) None ''echo hi > out.txt\<newline>'' initial_state
     = In_child redirected_state ''echo hi'' \<and>
   fst (child_process redirected_state ''echo hi'' (terminal_child old_files))
     = Child_exec [''echo'', ''hi''] \<and>
   c_fs (program_writes
           (snd (child_process redirected_state ''echo hi'' (terminal_child old_files)))
           ''hi\<newline>'') ''out.txt''
     = Some ''hi\<newline>lo world\<newline>''"
  by (simp add: line_simps execute_external_command_def child_world_def initial_state_def
      redirected_state_def emit_def tick_def Let_def child_process_def redirect_output_def
      redirect_input_def sys_open_def sys_write_def program_writes_def terminal_child_def
      old_files_def)

section \<open>The logical operator of a line\<close>

lemma operator_tags_Cons:
  "operator_tags (t # ts) =
     (case operator_tag t of None \<Rightarrow> operator_tags ts | Some tag \<Rightarrow> tag # operator_tags ts)"
  by (simp add: operator_tags_def List.map_filter_simps split: option.splits)

lemma latest_tag_Nil: "latest_tag start [] = start"
  by (simp add: latest_tag_def operator_tags_def List.map_filter_simps)

lemma latest_tag_Cons:
  "latest_tag start (t # ts) =
     latest_tag (case operator_tag t of None \<Rightarrow> start | Some tag \<Rightarrow> Some tag) ts"
  by (simp add: latest_tag_def operator_tags_Cons split: option.splits)

lemma redirect_operator:
  "redirect set_field rest a st = Ret (a1, st1) \<Longrightarrow> logical_operator a1 = logical_operator a"
  by (auto simp: redirect_def split: list.splits option.splits)

lemma assemble_logical_operator:
  "assemble tokens a st = Ret (a1, st1) \<Longrightarrow>
   logical_operator a1 = latest_tag (logical_operator a) (scanned tokens)"
proof (induction tokens a st rule: assemble.induct)
  case (1 a st)
  then show ?case by (simp add: scanned_def latest_tag_Nil)
next
  case (2 token rest a st)
  show ?case
  proof (cases "is_redirection token")
    case True
    then have "operator_tag token = None"
      by (auto simp: is_redirection_def operator_tag_def)
    with True "2.prems" show ?thesis
      by (auto simp: is_redirection_def scanned_def latest_tag_Nil dest: redirect_operator)
  next
    case False
    then have sc: "scanned (token # rest) = token # scanned rest"
      by (simp add: scanned_def)
    from False have nr: "token \<noteq> ''>''" "token \<noteq> ''>>''" "token \<noteq> ''<''"
      by (auto simp: is_redirection_def)
    consider (andor) "token = ''&&'' \<or> token = ''||''"
      | (semi) "\<not> (token = ''&&'' \<or> token = ''||'')" "last token = CHR '';''"
      | (amp) "\<not> (token = ''&&'' \<or> token = ''||'')" "last token \<noteq> CHR '';''" "token = ''&''"
      | (word) "\<not> (token = ''&&'' \<or> token = ''||'')" "last token \<noteq> CHR '';''" "token \<noteq> ''&''"
      by blast
    then show ?thesis
    proof cases
      case andor
      with "2.prems" "2.IH"(1) show ?thesis
        by (simp add: sc latest_tag_Cons operator_tag_def)
    next
      case semi
      with "2.prems" "2.IH"(2) show ?thesis
        by (simp add: sc latest_tag_Cons operator_tag_def)
    next
      case amp
      then have "operator_tag token = None" by (simp add: operator_tag_def)
      then have step: "latest_tag (logical_operator a) (scanned (token # rest)) =
                       latest_tag (logical_operator a) (scanned rest)"
        by (simp add: sc latest_tag_Cons)
      from amp nr "2.prems" "2.IH"(3) show ?thesis
        unfolding step by (auto split: option.splits)
    next
      case word
      show ?thesis
      proof (cases "rest = []")
        case True
        with word nr "2.prems" show ?thesis
          by (auto simp: sc latest_tag_Cons operator_tag_def Let_def scanned_def latest_tag_Nil)
      next
        case False
        with word nr "2.prems" "2.IH"(4) show ?thesis
          by (simp add: sc latest_tag_Cons operator_tag_def Let_def)
      qed
    qed
  qed
qed

lemma tokens_a_b_c:
  "strtok_tokens ''a && b || c\<newline>'' = [''a'', ''&&'', ''b'', ''||'', ''c\<newline>'']"
  by (simp add: strtok_tokens_def)

lemma assemble_a_b_c:
  "assemble_line ''a && b || c\<newline>'' initial_state =
     Ret (\<lparr>commands = [''a'', ''b'', ''c''], logical_operator = Some ''||'',
            current_command = Some ''c''\<rparr>, initial_state)"
  by (simp add: assemble_line_def tokens_a_b_c empty_assembly_def join_token_def trim_space_def)

lemma tags_a_b_c: "operator_tags (scanned (strtok_tokens ''a && b || c\<newline>'')) = [''&&'', ''||'']"
  by (simp add: tokens_a_b_c scanned_def is_redirection_def operator_tags_def
      List.map_filter_simps operator_tag_def)

text \<open>
  C1, as the claim states it, fails: in \<open>a && b || c\<close> the first operator is \<open>&&\<close>, the
  tag the assembler leaves is \<open>||\<close>, and when \<open>a\<close> exits with status 0 the line runs
  \<open>a\<close> alone, as \<open>a || b\<close> would.
\<close>

theorem first_operator_counterexample:
  "operator_tags (strtok_tokens ''a && b || c\<newline>'') = [''&&'', ''||''] \<and>
   assemble_line ''a && b || c\<newline>'' initial_state =
     Ret (\<lparr>commands = [''a'', ''b'', ''c''], logical_operator = Some ''||'',
            current_command = Some ''c''\<rparr>, initial_state) \<and>
   execute_command succeeding_world (Suc 0) None ''a && b || c\<newline>'' initial_state =
     Ret (initial_state\<lparr>previous_commands := [''a && b || c''],
            trace := [Sys_fork ''a'' None None None], clock := 2\<rparr>)"
  by (simp add: line_simps operator_tags_def List.map_filter_simps operator_tag_def
      execute_external_command_def succeeding_world_def initial_state_def emit_def tick_def Let_def clear_redirection_def)

text \<open>
  C1, amended: for every line that assembles and has at least one logical-operator
  token among the tokens scanned (those before the first redirection operator), the
  line's single logical operator tag is that of the last such token.
\<close>

theorem last_operator_is_honored:
  assumes "assemble_line line st = Ret (a, st1)"
    and "operator_tags (scanned (strtok_tokens line)) \<noteq> []"
  shows "logical_operator a = Some (last (operator_tags (scanned (strtok_tokens line))))"
  using assemble_logical_operator [of "strtok_tokens line" empty_assembly st a st1] assms
  by (simp add: assemble_line_def latest_tag_def)

theorem last_operator_is_honored_witness:
  "assemble_line ''a && b || c\<newline>'' initial_state =
     Ret (\<lparr>commands = [''a'', ''b'', ''c''], logical_operator = Some ''||'',
            current_command = Some ''c''\<rparr>, initial_state) \<and>
   operator_tags (scanned (strtok_tokens ''a && b || c\<newline>'')) = [''&&'', ''||''] \<and>
   logical_operator \<lparr>commands = [''a'', ''b'', ''c''], logical_operator = Some ''||'',
                      current_command = Some ''c''\<rparr>
     = Some (last (operator_tags (scanned (strtok_tokens ''a && b || c\<newline>''))))"
  using last_operator_is_honored [OF assemble_a_b_c]
  by (simp add: tags_a_b_c assemble_a_b_c)

text \<open>
  A line whose first redirection operator is its last token never assembles: either an
  earlier step faults or the operator finds no token after it.
\<close>

lemma assemble_trailing_redirection:
  assumes "is_redirection r" and "\<forall>t \<in> set tokens. \<not> is_redirection t"
  shows "\<exists>e. assemble (tokens @ [r]) a st = Fault e"
  using assms(2)
proof (induction tokens arbitrary: a)
  case Nil
  with assms(1) show ?case by (auto simp: is_redirection_def redirect_def)
next
  case (Cons token rest)
  then have nr: "token \<noteq> ''>''" "token \<noteq> ''>>''" "token \<noteq> ''<''"
    by (auto simp: is_redirection_def)
  from Cons have "\<And>a. \<exists>e. assemble (rest @ [r]) a st = Fault e" by simp
  with nr show ?case
    by (auto simp: Let_def split: option.splits)
qed

section \<open>Running a history entry again by its index\<close>

lemma builtin_hash:
  assumes "strtok_tokens command = (CHR ''#'' # text) # rest"
  shows "execute_builtin_command w exec command st = execute_n exec (atoi text) st"
  using assms by (simp add: execute_builtin_command_def starts_with_def)

lemma atoi_not_a_number: "not_a_number text \<Longrightarrow> atoi text = 0"
  by (cases "snd (strip_sign (dropWhile isspace text))")
     (auto simp: not_a_number_def atoi_def strtol_def to_int_def decimal_value_def Let_def
      split: prod.splits)

lemma atoi_in_range:
  assumes "- 2147483648 \<le> decimal_value text" and "decimal_value text \<le> 2147483647"
  shows "atoi text = decimal_value text"
  using assms by (simp add: atoi_def strtol_def to_int_def)

lemma tokens_hash_7: "strtok_tokens ''#7'' = [''#7'']"
  by (simp add: strtok_tokens_def)
lemma tokens_hash_0: "strtok_tokens ''#0'' = [''#0'']"
  by (simp add: strtok_tokens_def)
lemma tokens_hash_abc: "strtok_tokens ''#abc'' = [''#abc'']"
  by (simp add: strtok_tokens_def)
lemma tokens_hash: "strtok_tokens ''#'' = [''#'']"
  by (simp add: strtok_tokens_def)
lemma tokens_hash_big: "strtok_tokens ''#4294967296'' = [''#4294967296'']"
  by (simp add: strtok_tokens_def)
lemma value_7: "decimal_value ''7'' = 7"
  by (simp add: decimal_value_def strip_sign_def isspace_def isdigit_def)
lemma value_0: "decimal_value ''0'' = 0"
  by (simp add: decimal_value_def strip_sign_def isspace_def isdigit_def)
lemma value_big: "decimal_value ''4294967296'' = 4294967296"
  by (simp add: decimal_value_def strip_sign_def isspace_def isdigit_def)
lemma not_a_number_abc: "not_a_number ''abc''"
  by (simp add: not_a_number_def strip_sign_def isspace_def isdigit_def)
lemma not_a_number_empty: "not_a_number ''''"
  by (simp add: not_a_number_def strip_sign_def isspace_def isdigit_def)

lemma rerun_cd:
  "execute_command dead_world (Suc 0) (Some 0) ''cd'' (emit (Print_command ''cd'') one_entry_state)
     = Ret (initial_state\<lparr>previous_commands := [''cd'', ''cd''],
              trace := [Print_command ''cd'', Print_invalid_command ''cd'']\<rparr>)"
  by (simp add: line_simps execute_builtin_command_def one_entry_state_def initial_state_def
      emit_def Let_def)

text \<open>
  C8, as the claim states it, fails: 4294967296 is outside the positions of a history
  of one entry, and \<open>#4294967296\<close> prints that entry, runs it again and returns 0: the
  conversion to int leaves 0.
\<close>

theorem history_index_overflow_counterexample:
  "strtok_tokens ''#4294967296'' = [''#4294967296''] \<and>
   decimal_value ''4294967296'' = 4294967296 \<and>
   int (length (previous_commands one_entry_state)) \<le> 4294967296 \<and>
   execute_builtin_command dead_world (execute_command dead_world (Suc 0)) ''#4294967296''
       one_entry_state
     = Ret (0, initial_state\<lparr>previous_commands := [''cd'', ''cd''],
              trace := [Print_command ''cd'', Print_invalid_command ''cd'']\<rparr>)"
  using rerun_cd
  by (simp add: builtin_hash [OF tokens_hash_big] tokens_hash_big value_big atoi_def strtol_def
      to_int_def execute_n_def Let_def one_entry_state_def initial_state_def)

text \<open>
  C8, amended: when the text after \<open>#\<close> is an integer \<open>n\<close> in the range of a 32-bit int,
  the built-in, for \<open>n\<close> outside the positions of the history, prints the invalid-index
  error, returns 1 and changes nothing else, so nothing is run again; for \<open>n\<close> inside, it
  prints the stored entry and runs it through \<open>execute_command\<close>.
\<close>

theorem history_index_builtin:
  assumes "strtok_tokens command = (CHR ''#'' # text) # rest"
    and "decimal_value text = n" and "- 2147483648 \<le> n" and "n \<le> 2147483647"
  shows "execute_builtin_command w (execute_command w fuel) command st =
     (if n < 0 \<or> int (length (previous_commands st)) \<le> n
      then Ret (1, emit Print_invalid_index st)
      else bind (execute_command w fuel (Some (nat n)) (previous_commands st ! nat n)
                  (emit (Print_command (previous_commands st ! nat n)) st))
             (\<lambda>st1. Ret (0, st1)))"
proof -
  from assms have "atoi text = n" by (simp add: atoi_in_range)
  with assms(1) show ?thesis by (auto simp: builtin_hash execute_n_def Let_def)
qed

theorem history_index_builtin_witness:
  "strtok_tokens ''#7'' = [''#7''] \<and> decimal_value ''7'' = 7 \<and>
   execute_builtin_command dead_world (execute_command dead_world (Suc 0)) ''#7'' one_entry_state
     = Ret (1, emit Print_invalid_index one_entry_state) \<and>
   strtok_tokens ''#0'' = [''#0''] \<and> decimal_value ''0'' = 0 \<and>
   execute_builtin_command dead_world (execute_command dead_world (Suc 0)) ''#0'' one_entry_state
     = Ret (0, initial_state\<lparr>previous_commands := [''cd'', ''cd''],
              trace := [Print_command ''cd'', Print_invalid_command ''cd'']\<rparr>)"
  using history_index_builtin [of "''#7''" "''7''" "[]" 7 dead_world "Suc 0" one_entry_state]
    history_index_builtin [of "''#0''" "''0''" "[]" 0 dead_world "Suc 0" one_entry_state]
    rerun_cd
  by (simp add: tokens_hash_7 tokens_hash_0 value_7 value_0 one_entry_state_def
      initial_state_def)

text \<open>
  C10: when the text after \<open>#\<close> does not parse as a number, the index is 0: with a
  history that is not empty the oldest entry is printed and run again through
  \<open>execute_command\<close>; with an empty history the invalid-index error is printed and 1
  returned.
\<close>

theorem history_index_not_a_number:
  assumes "strtok_tokens command = (CHR ''#'' # text) # rest" and "not_a_number text"
  shows "execute_builtin_command w (execute_command w fuel) command st =
     (if previous_commands st = []
      then Ret (1, emit Print_invalid_index st)
      else bind (execute_command w fuel (Some 0) (previous_commands st ! 0)
                  (emit (Print_command (previous_commands st ! 0)) st))
             (\<lambda>st1. Ret (0, st1)))"
  using assms by (auto simp: builtin_hash execute_n_def Let_def atoi_not_a_number)

theorem history_index_not_a_number_witness:
  "strtok_tokens ''#abc'' = [''#abc''] \<and> not_a_number ''abc'' \<and>
   execute_builtin_command dead_world (execute_command dead_world (Suc 0)) ''#abc'' one_entry_state
     = Ret (0, initial_state\<lparr>previous_commands := [''cd'', ''cd''],
              trace := [Print_command ''cd'', Print_invalid_command ''cd'']\<rparr>) \<and>
   strtok_tokens ''#'' = [''#''] \<and> not_a_number '''' \<and>
   execute_builtin_command dead_world (execute_command dead_world (Suc 0)) ''#'' initial_state
     = Ret (1, emit Print_invalid_index initial_state)"
  using history_index_not_a_number [of "''#abc''" "''abc''" "[]" dead_world "Suc 0" one_entry_state]
    history_index_not_a_number [of "''#''" "''''" "[]" dead_world "Suc 0" initial_state]
    rerun_cd
  by (simp add: tokens_hash_abc tokens_hash not_a_number_abc not_a_number_empty
      one_entry_state_def initial_state_def)

section \<open>Two commands joined by a logical operator\<close>

lemma operator_tags_range: "set (operator_tags tokens) \<subseteq> {''&&'', ''||'', '';''}"
proof (induction tokens)
  case Nil
  show ?case by (simp add: operator_tags_def List.map_filter_simps)
next
  case (Cons t ts)
  then show ?case
    by (auto simp: operator_tags_Cons operator_tag_def split: option.splits if_splits)
qed

lemma assemble_line_operator_range:
  assumes "assemble_line line st = Ret (a, st1)" and "logical_operator a = Some op"
  shows "op \<in> {''&&'', ''||'', '';''}"
proof -
  let ?tags = "operator_tags (scanned (strtok_tokens line))"
  from assemble_logical_operator [of "strtok_tokens line" empty_assembly st a st1] assms
  have "Some op = latest_tag None (scanned (strtok_tokens line))"
    by (simp add: assemble_line_def empty_assembly_def)
  then have "?tags \<noteq> []" and "op = last ?tags"
    by (auto simp: latest_tag_def split: if_splits)
  then have "op \<in> set ?tags" by simp
  with operator_tags_range show ?thesis by blast
qed

lemma assemble_a_and_b:
  "assemble_line ''a && b\<newline>'' initial_state =
     Ret (\<lparr>commands = [''a'', ''b''], logical_operator = Some ''&&'',
            current_command = Some ''b''\<rparr>, initial_state)"
  by (simp add: assemble_line_def strtok_tokens_def empty_assembly_def join_token_def
      trim_space_def)

lemma dispatch_a_succeeds:
  "dispatch succeeding_world (execute_command succeeding_world 0) ''a'' initial_state =
     Ret (0, initial_state\<lparr>trace := [Sys_fork ''a'' None None None], clock := 2\<rparr>)"
  by (simp add: dispatch_def is_builtin_command_def strtok_tokens_def trim_space_def
      starts_with_def execute_external_command_def succeeding_world_def initial_state_def
      emit_def tick_def Let_def clear_redirection_def)

lemma dispatch_a_fails:
  "dispatch failing_child_world (execute_command failing_child_world 0) ''a'' initial_state =
     Ret (1, initial_state\<lparr>trace := [Sys_fork ''a'' None None None], clock := 2\<rparr>)"
  by (simp add: dispatch_def is_builtin_command_def strtok_tokens_def trim_space_def
      starts_with_def execute_external_command_def failing_child_world_def initial_state_def
      emit_def tick_def Let_def clear_redirection_def)

text \<open>
  C2: for a line that assembles into exactly two commands \<open>cmd1\<close> and \<open>cmd2\<close> with the
  operator \<open>op\<close>, when the dispatch of \<open>cmd1\<close> returns \<open>status\<close>: \<open>cmd2\<close> is dispatched
  exactly when \<open>op\<close> is \<open>&&\<close> and \<open>status\<close> is 0, or \<open>op\<close> is \<open>||\<close> and \<open>status\<close> is not 0,
  or \<open>op\<close> is \<open>;\<close>; otherwise the line ends after \<open>cmd1\<close>.  Either way the line is then
  saved to the history.
\<close>

theorem logical_pair:
  assumes line: "assemble_line line st = Ret (a, st1)"
    and two: "commands a = [cmd1, cmd2]"
    and op: "logical_operator a = Some op"
    and first: "dispatch w (execute_command w fuel) cmd1 st1 = Ret (status, st2)"
  shows "execute_command w (Suc fuel) origin line st =
           (if second_command_runs op status
            then bind (dispatch w (execute_command w fuel) cmd2 st2)
                   (\<lambda>(status2, st3). Ret (save_history origin line st3))
            else Ret (save_history origin line st2))"
proof -
  from line op have "op \<in> {''&&'', ''||'', '';''}" by (rule assemble_line_operator_range)
  then consider "op = ''&&''" | "op = ''||''" | "op = '';''" by blast
  then show ?thesis
  proof cases
    case 1
    with line two op first show ?thesis
      by (cases "dispatch w (execute_command w fuel) cmd2 st2")
         (auto simp: run_command_def run_first_def run_second_def vector_get_def
          second_command_runs_def)
  next
    case 2
    with line two op first show ?thesis
      by (cases "dispatch w (execute_command w fuel) cmd2 st2")
         (auto simp: run_command_def run_first_def run_second_def vector_get_def
          second_command_runs_def)
  next
    case 3
    with line two op first show ?thesis
      by (cases "dispatch w (execute_command w fuel) cmd2 st2")
         (auto simp: run_command_def run_first_def run_second_def vector_get_def
          second_command_runs_def)
  qed
qed


theorem logical_pair_witness:
  "assemble_line ''a && b\<newline>'' initial_state =
     Ret (\<lparr>commands = [''a'', ''b''], logical_operator = Some ''&&'',
            current_command = Some ''b''\<rparr>, initial_state) \<and>
   dispatch succeeding_world (execute_command succeeding_world 0) ''a'' initial_state =
     Ret (0, initial_state\<lparr>trace := [Sys_fork ''a'' None None None], clock := 2\<rparr>) \<and>
   execute_command succeeding_world (Suc 0) None ''a && b\<newline>'' initial_state =
     Ret (initial_state\<lparr>previous_commands := [''a && b''],
            trace := [Sys_fork ''a'' None None None, Sys_fork ''b'' None None None],
            clock := 4\<rparr>) \<and>
   dispatch failing_child_world (execute_command failing_child_world 0) ''a'' initial_state =
     Ret (1, initial_state\<lparr>trace := [Sys_fork ''a'' None None None], clock := 2\<rparr>) \<and>
   execute_command failing_child_world (Suc 0) None ''a && b\<newline>'' initial_state =
     Ret (initial_state\<lparr>previous_commands := [''a && b''],
            trace := [Sys_fork ''a'' None None None], clock := 2\<rparr>)"
proof -
  let ?a = "\<lparr>commands = [''a'', ''b''], logical_operator = Some ''&&'',
             current_command = Some ''b''\<rparr>"
  have two: "commands ?a = [''a'', ''b'']" and op: "logical_operator ?a = Some ''&&''"
    by simp_all
  note runs = logical_pair [OF assemble_a_and_b two op dispatch_a_succeeds, of None]
  note skips = logical_pair [OF assemble_a_and_b two op dispatch_a_fails, of None]
  from runs have r:
    "execute_command succeeding_world (Suc 0) None ''a && b\<newline>'' initial_state =
       Ret (initial_state\<lparr>previous_commands := [''a && b''],
              trace := [Sys_fork ''a'' None None None, Sys_fork ''b'' None None None],
              clock := 4\<rparr>)"
    by (simp add: second_command_runs_def dispatch_def is_builtin_command_def strtok_tokens_def
        trim_space_def starts_with_def execute_external_command_def succeeding_world_def
        initial_state_def emit_def tick_def Let_def clear_redirection_def save_history_def)
  from skips have s:
    "execute_command failing_child_world (Suc 0) None ''a && b\<newline>'' initial_state =
       Ret (initial_state\<lparr>previous_commands := [''a && b''],
              trace := [Sys_fork ''a'' None None None], clock := 2\<rparr>)"
    by (simp add: second_command_runs_def initial_state_def save_history_def trim_space_def)
  from assemble_a_and_b dispatch_a_succeeds dispatch_a_fails r s show ?thesis
    by blast
qed

section \<open>The rows of ps\<close>

text \<open>
  Launching a background job extends both vectors and removing a job shortens only the
  pid vector, so every job keeps a position in the command vector.
\<close>

lemma erase_loop_length: "length (erase_loop p i jobs) \<le> length jobs"
proof (induction p i jobs rule: erase_loop.induct)
  case (1 p i jobs)
  show ?case
  proof (cases "i < length jobs")
    case False
    then show ?thesis by (simp add: erase_loop.simps [of p i jobs])
  next
    case True
    show ?thesis
    proof (cases "jobs ! i = p")
      case eq: True
      with True "1.IH"(1) have "length (erase_loop p (Suc i) (vector_erase jobs i))
          \<le> length (vector_erase jobs i)" by simp
      also have "\<dots> \<le> length jobs" by (simp add: vector_erase_def)
      finally show ?thesis using True eq by (simp add: erase_loop.simps [of p i jobs])
    next
      case False
      with True "1.IH"(2) show ?thesis by (simp add: erase_loop.simps [of p i jobs])
    qed
  qed
qed

lemma remove_background_job_keeps_commands:
  "jobs_have_commands st \<Longrightarrow> jobs_have_commands (remove_background_job w p st)"
  using erase_loop_length [of p 0 "background_jobs st"]
  by (simp add: jobs_have_commands_def remove_background_job_def kill_process_def
      send_signal_def emit_def tick_def Let_def)

lemma external_command_keeps_commands:
  "execute_external_command w command st = Ret (status, st1) \<Longrightarrow> jobs_have_commands st \<Longrightarrow>
   jobs_have_commands st1"
  by (auto simp: jobs_have_commands_def execute_external_command_def Let_def emit_def tick_def
      clear_redirection_def add_background_job_def split: if_splits wait_status.splits)

lemma ps_rows_trace:
  assumes readable: "\<forall>t. \<forall>p \<in> set (background_jobs st). w_proc w t p \<noteq> None"
    and bound: "i + k \<le> length (background_jobs st)"
    and aligned: "length (background_jobs st) \<le> length (background_jobs_commands st)"
  shows "\<exists>st1 rows. ps_rows w k i st = Ret st1
           \<and> trace st1 = trace st @ map Print_process_info rows
           \<and> map info_pid rows = take k (drop i (background_jobs st))
           \<and> map info_command rows = take k (drop i (background_jobs_commands st))
           \<and> background_jobs st1 = background_jobs st
           \<and> background_jobs_commands st1 = background_jobs_commands st
           \<and> pid st1 = pid st"
  using assms
proof (induction k arbitrary: i st)
  case 0
  then show ?case by simp
next
  case (Suc k)
  let ?jobs = "background_jobs st" and ?cmds = "background_jobs_commands st"
  from Suc.prems have i: "i < length ?jobs" "i < length ?cmds" by simp_all
  then have "?jobs ! i \<in> set ?jobs" by simp
  with Suc.prems(1) obtain info where info: "w_proc w (clock st) (?jobs ! i) = Some info"
    by blast
  let ?row = "info\<lparr>info_pid := ?jobs ! i, info_command := ?cmds ! i\<rparr>"
  let ?st = "emit (Print_process_info ?row) (tick st)"
  have step: "ps_rows w (Suc k) i st = ps_rows w k (Suc i) ?st"
    using i info by (simp add: vector_get_def get_process_info_def tick_def)
  have same: "background_jobs ?st = ?jobs" "background_jobs_commands ?st = ?cmds"
    "pid ?st = pid st" "trace ?st = trace st @ [Print_process_info ?row]"
    by (simp_all add: emit_def tick_def)
  from Suc.prems same have "\<forall>t. \<forall>p \<in> set (background_jobs ?st). w_proc w t p \<noteq> None"
    "Suc i + k \<le> length (background_jobs ?st)"
    "length (background_jobs ?st) \<le> length (background_jobs_commands ?st)"
    by simp_all
  from Suc.IH [OF this] obtain st1 rows where rest:
    "ps_rows w k (Suc i) ?st = Ret st1"
    "trace st1 = trace ?st @ map Print_process_info rows"
    "map info_pid rows = take k (drop (Suc i) ?jobs)"
    "map info_command rows = take k (drop (Suc i) ?cmds)"
    "background_jobs st1 = ?jobs" "background_jobs_commands st1 = ?cmds" "pid st1 = pid st"
    unfolding same by blast
  have "take (Suc k) (drop i ?jobs) = ?jobs ! i # take k (drop (Suc i) ?jobs)"
    "take (Suc k) (drop i ?cmds) = ?cmds ! i # take k (drop (Suc i) ?cmds)"
    using i by (simp_all add: Cons_nth_drop_Suc [symmetric])
  with rest step same
  have "ps_rows w (Suc k) i st = Ret st1
      \<and> trace st1 = trace st @ map Print_process_info (?row # rows)
      \<and> map info_pid (?row # rows) = take (Suc k) (drop i ?jobs)
      \<and> map info_command (?row # rows) = take (Suc k) (drop i ?cmds)
      \<and> background_jobs st1 = ?jobs \<and> background_jobs_commands st1 = ?cmds
      \<and> pid st1 = pid st"
    by simp
  then show ?case by blast
qed

text \<open>
  C9: when /proc can be read for the tracked pids and for the shell, and every job has
  a position in the command vector, \<open>ps\<close> returns 0 and prints the header, then exactly one row for each
  tracked job in the order of the job table, then one row for the shell's own pid,
  last, with the command \<open>./shell\<close>; this holds for any number of jobs, zero included.
\<close>

theorem ps_lists_jobs_then_shell:
  assumes readable: "\<forall>t. \<forall>p \<in> set (background_jobs st) \<union> {pid st}. w_proc w t p \<noteq> None"
    and aligned: "jobs_have_commands st"
  shows "\<exists>st1 rows. execute_ps w st = Ret (0, st1)
           \<and> trace st1 = trace st @ Print_process_info_header # map Print_process_info rows
           \<and> map info_pid rows = background_jobs st @ [pid st]
           \<and> map info_command rows =
               take (length (background_jobs st)) (background_jobs_commands st) @ [''./shell'']"
proof -
  let ?st = "emit Print_process_info_header st"
  have same: "background_jobs ?st = background_jobs st"
    "background_jobs_commands ?st = background_jobs_commands st" "pid ?st = pid st"
    "trace ?st = trace st @ [Print_process_info_header]"
    by (simp_all add: emit_def)
  from readable aligned same
  have "\<forall>t. \<forall>p \<in> set (background_jobs ?st). w_proc w t p \<noteq> None"
    "0 + length (background_jobs st) \<le> length (background_jobs ?st)"
    "length (background_jobs ?st) \<le> length (background_jobs_commands ?st)"
    by (simp_all add: jobs_have_commands_def)
  from ps_rows_trace [OF this] obtain st1 rows where rows:
    "ps_rows w (length (background_jobs st)) 0 ?st = Ret st1"
    "trace st1 = trace ?st @ map Print_process_info rows"
    "map info_pid rows = background_jobs st"
    "map info_command rows = take (length (background_jobs st)) (background_jobs_commands st)"
    "pid st1 = pid st"
    unfolding same by auto
  from readable obtain info where info: "w_proc w (clock st1) (pid st) = Some info"
    by auto
  let ?row = "info\<lparr>info_pid := pid st, info_command := ''./shell''\<rparr>"
  let ?end = "emit (Print_process_info ?row) (tick st1)"
  from rows info have "execute_ps w st = Ret (0, ?end)"
    by (simp add: execute_ps_def get_process_info_def)
  moreover from rows same
  have "trace ?end = trace st @ Print_process_info_header # map Print_process_info (rows @ [?row])"
    by (simp add: emit_def tick_def)
  moreover from rows have "map info_pid (rows @ [?row]) = background_jobs st @ [pid st]"
    "map info_command (rows @ [?row]) =
       take (length (background_jobs st)) (background_jobs_commands st) @ [''./shell'']"
    by simp_all
  ultimately show ?thesis by blast
qed

theorem ps_lists_jobs_then_shell_witness:
  "jobs_have_commands two_jobs_state \<and>
   (\<exists>st1 rows. execute_ps proc_world two_jobs_state = Ret (0, st1)
      \<and> trace st1 = Print_process_info_header # map Print_process_info rows
      \<and> map info_pid rows = [5, 6, 100]
      \<and> map info_command rows = [''sleep 50 '', ''sleep 60 '', ''./shell''])"
  using ps_lists_jobs_then_shell [of two_jobs_state proc_world]
  by (simp add: two_jobs_state_def initial_state_def proc_world_def jobs_have_commands_def)

end
